theory Spec2Isabelle
  imports Main
begin

section \<open>Data model: the two tables of src/server.js\<close>

text \<open>
  The table \<open>Users\<close> (server.js lines 21-44) and the table \<open>ChatHistories\<close>
  (lines 46-64) as records. The column \<open>id\<close> is written \<open>uid\<close> and \<open>cid\<close>,
  since \<open>id\<close> is the identity function of HOL. The column \<open>UserId\<close> is the foreign key
  that \<open>User.hasMany(ChatHistory)\<close> and \<open>ChatHistory.belongsTo(User)\<close> add
  (lines 67-68); the association is declared with no options, so the column accepts
  NULL, written \<open>None\<close>. Times are milliseconds as natural numbers.
\<close>

record user =
  uid :: nat
  username :: string
  password :: string
  email :: string

record chat =
  cid :: nat
  message :: string
  response :: string
  timestamp :: nat
  UserId :: "nat option"

text \<open>
  The database: the rows of each table in insertion order, and the next value of each
  \<open>autoIncrement\<close> sequence. A sequence value is consumed by every INSERT that
  reaches the database, also by one that a constraint then rejects.
\<close>

record db =
  users :: "user list"
  chats :: "chat list"
  user_seq :: nat
  chat_seq :: nat

text \<open>What the store and the hashing library throw; the handlers catch all of them.\<close>

datatype error =
    ValidationError
  | UniqueConstraintError
  | ForeignKeyConstraintError
  | QueryError
  | BcryptError

text \<open>
  The primitives the source calls and does not define: the validator behind
  \<open>isEmail: true\<close> (line 41), \<open>bcrypt.hash(_, 10)\<close> (line 130),
  \<open>bcrypt.compare\<close> (line 160), the clock behind \<open>DataTypes.NOW\<close> (line 62)
  and whether the session store fails to destroy a session (line 177). They are
  parameters of every handler.
\<close>

record env =
  isEmail :: "string \<Rightarrow> bool"
  bcrypt_hash :: "string \<Rightarrow> string"
  bcrypt_compare :: "string \<Rightarrow> string \<Rightarrow> bool"
  now :: nat
  destroy_err :: bool

section \<open>Requests, sessions and replies\<close>

text \<open>
  A request body is an object of form fields: a field is absent (\<open>None\<close>, the
  \<open>undefined\<close> of JavaScript) or a string. \<open>req.session.userId\<close> is the user
  identifier of the session, \<open>None\<close> when the request has no session or a session
  that never logged in.
\<close>

type_synonym body = "string \<rightharpoonup> string"
type_synonym session = "nat option"

datatype http_method = GET | POST

record request =
  req_method :: http_method
  req_path :: string
  req_body :: body

text \<open>
  The error texts of the source are Tamil string literals; each literal is one
  constructor, named for what it says, with the line it stands on:
  \<open>FillAllFields\<close> 120, \<open>EmailInUse\<close> 126, \<open>RegisterError\<close> 145,
  \<open>BadCredentials\<close> 156 and 162 (the same literal, byte for byte),
  \<open>LoginError\<close> 171, \<open>LogoutError\<close> 178, \<open>ProfileError\<close> 192,
  \<open>ChatFieldsRequired\<close> 201, \<open>ChatSaveError\<close> 211, \<open>HistoryError\<close> 226.
\<close>

datatype message =
    FillAllFields
  | EmailInUse
  | RegisterError
  | BadCredentials
  | LoginError
  | LogoutError
  | ProfileError
  | ChatFieldsRequired
  | ChatSaveError
  | HistoryError

datatype jsonv = JStr string | JBool bool | JMsg message | JChat chat

text \<open>
  A reply: \<open>res.status(n).json(object)\<close> (status 200 when \<open>res.json\<close> is called
  alone), \<open>res.json(array of rows)\<close>, \<open>res.sendFile\<close> and \<open>res.redirect\<close>;
  \<open>NoRoute\<close> stands for a request that no route of the file matches.
\<close>

datatype reply =
    Json nat "(string \<times> jsonv) list"
  | JsonRows nat "chat list"
  | SendFile string
  | Redirect string
  | NoRoute

definition falsy :: "string option \<Rightarrow> bool" where
  "falsy v = (case v of None \<Rightarrow> True | Some s \<Rightarrow> s = [])"

definition err :: "nat \<Rightarrow> message \<Rightarrow> reply" where
  "err n m = Json n [(''error'', JMsg m)]"

definition success :: "string \<Rightarrow> reply" where
  "success target = Json 200 [(''success'', JBool True), (''redirect'', JStr target)]"

section \<open>The store operations the handlers call\<close>

text \<open>
  The operations are modelled on a database that is reachable. A lost connection
  makes every operation throw, which each handler answers with status 500; it is
  the only use of \<open>ProfileError\<close> and lies outside the model.
\<close>

text \<open>
  \<open>User.findOne({ where: { email } })\<close>: the first row with that email, or null.
  A where-value that is \<open>undefined\<close> makes the query builder throw.
\<close>

definition User_findOne :: "db \<Rightarrow> string option \<Rightarrow> error + user option" where
  "User_findOne d e =
     (case e of
        None \<Rightarrow> Inl QueryError
      | Some s \<Rightarrow> Inr (find (\<lambda>u. email u = s) (users d)))"

text \<open>
  \<open>User.findByPk(id, { attributes: ['username', 'email'] })\<close>: null for a key that
  is \<open>undefined\<close>; otherwise the row with that key, read with the two named columns
  only.
\<close>

record user_attributes =
  attr_username :: string
  attr_email :: string

definition User_findByPk :: "db \<Rightarrow> nat option \<Rightarrow> user_attributes option" where
  "User_findByPk d k =
     (case k of
        None \<Rightarrow> None
      | Some i \<Rightarrow>
          (case find (\<lambda>u. uid u = i) (users d) of
             None \<Rightarrow> None
           | Some u \<Rightarrow> Some \<lparr>attr_username = username u, attr_email = email u\<rparr>))"

text \<open>
  \<open>User.create\<close> against the model of lines 21-44. The model's own validation runs
  first and reaches no database: \<open>allowNull: false\<close> on the three columns and
  \<open>isEmail\<close> on the email. Then the INSERT takes the next identifier and the two
  \<open>unique\<close> constraints accept or reject the row.
\<close>

definition User_create ::
  "env \<Rightarrow> db \<Rightarrow> string option \<Rightarrow> string option \<Rightarrow> string option \<Rightarrow> (error + user) \<times> db" where
  "User_create ev d un em pw =
     (case (un, em, pw) of
        (Some u, Some e, Some p) \<Rightarrow>
          if \<not> isEmail ev e then (Inl ValidationError, d)
          else
            (let d1 = d\<lparr>user_seq := Suc (user_seq d)\<rparr>;
                 row = \<lparr>uid = user_seq d, username = u, password = p, email = e\<rparr>
             in if (\<exists>x \<in> set (users d). username x = u \<or> email x = e)
                then (Inl UniqueConstraintError, d1)
                else (Inr row, d1\<lparr>users := users d @ [row]\<rparr>))
      | _ \<Rightarrow> (Inl ValidationError, d))"

text \<open>
  \<open>ChatHistory.create({ message, response, UserId })\<close> against the model of
  lines 46-68: \<open>allowNull: false\<close> on message and response, the timestamp defaulting
  to the clock (the handler passes none), and the foreign key, which accepts NULL and
  otherwise must name a row of \<open>Users\<close>.
\<close>

definition ChatHistory_create ::
  "env \<Rightarrow> db \<Rightarrow> string option \<Rightarrow> string option \<Rightarrow> nat option \<Rightarrow> (error + chat) \<times> db" where
  "ChatHistory_create ev d msg rsp owner =
     (case (msg, rsp) of
        (Some m, Some r) \<Rightarrow>
          (let d1 = d\<lparr>chat_seq := Suc (chat_seq d)\<rparr>;
               row = \<lparr>cid = chat_seq d, message = m, response = r,
                      timestamp = now ev, UserId = owner\<rparr>
           in case owner of
                None \<Rightarrow> (Inr row, d1\<lparr>chats := chats d @ [row]\<rparr>)
              | Some i \<Rightarrow>
                  if (\<exists>x \<in> set (users d). uid x = i)
                  then (Inr row, d1\<lparr>chats := chats d @ [row]\<rparr>)
                  else (Inl ForeignKeyConstraintError, d1))
      | _ \<Rightarrow> (Inl ValidationError, d))"

text \<open>
  \<open>ChatHistory.findAll({ where: { UserId }, order: [['timestamp', 'DESC']], limit: 50 })\<close>.
  As in \<open>User_findOne\<close>, a where-value that is \<open>undefined\<close> throws.
\<close>

definition ChatHistory_findAll :: "db \<Rightarrow> nat option \<Rightarrow> error + chat list" where
  "ChatHistory_findAll d owner =
     (case owner of
        None \<Rightarrow> Inl QueryError
      | Some i \<Rightarrow>
          Inr (take 50 (rev (sort_key timestamp (filter (\<lambda>c. UserId c = Some i) (chats d))))))"

text \<open>\<open>bcrypt.hash\<close> and \<open>bcrypt.compare\<close> reject a password that is \<open>undefined\<close>.\<close>

definition hash_password :: "env \<Rightarrow> string option \<Rightarrow> error + string" where
  "hash_password ev pw =
     (case pw of None \<Rightarrow> Inl BcryptError | Some p \<Rightarrow> Inr (bcrypt_hash ev p))"

definition compare_password :: "env \<Rightarrow> string option \<Rightarrow> string \<Rightarrow> error + bool" where
  "compare_password ev pw h =
     (case pw of None \<Rightarrow> Inl BcryptError | Some p \<Rightarrow> Inr (bcrypt_compare ev p h))"

section \<open>The middleware and the handlers\<close>

text \<open>
  \<open>requireAuth\<close> (lines 86-90): a middleware either answers or calls \<open>next()\<close>.
  The source calls \<open>next()\<close> whatever the session is.
\<close>

datatype middleware_result = Next | Answer reply

definition requireAuth :: "session \<Rightarrow> middleware_result" where
  "requireAuth s = Next"

text \<open>Every handler returns its reply, the database and the session after the request.\<close>

type_synonym outcome = "reply \<times> db \<times> session"

text \<open>\<open>GET /\<close>, \<open>GET /login\<close>, \<open>GET /signup\<close> (lines 93-112).\<close>

definition get_root :: "db \<Rightarrow> session \<Rightarrow> outcome" where
  "get_root d s =
     (case s of
        Some i \<Rightarrow> (Redirect ''/index.html'', d, s)
      | None \<Rightarrow> (Redirect ''/login'', d, s))"

definition get_page :: "string \<Rightarrow> db \<Rightarrow> session \<Rightarrow> outcome" where
  "get_page file d s =
     (case s of
        Some i \<Rightarrow> (Redirect ''/index.html'', d, s)
      | None \<Rightarrow> (SendFile file, d, s))"

text \<open>\<open>POST /api/register\<close> (lines 114-147).\<close>

definition api_register :: "env \<Rightarrow> db \<Rightarrow> session \<Rightarrow> body \<Rightarrow> outcome" where
  "api_register ev d s b =
     (if falsy (b ''username'') \<or> falsy (b ''email'') \<or> falsy (b ''password'')
      then (err 400 FillAllFields, d, s)
      else
        (case User_findOne d (b ''email'') of
           Inl e \<Rightarrow> (err 500 RegisterError, d, s)
         | Inr (Some existingUser) \<Rightarrow> (err 400 EmailInUse, d, s)
         | Inr None \<Rightarrow>
             (case hash_password ev (b ''password'') of
                Inl e \<Rightarrow> (err 500 RegisterError, d, s)
              | Inr hashedPassword \<Rightarrow>
                  (case User_create ev d (b ''username'') (b ''email'') (Some hashedPassword) of
                     (Inl e, d1) \<Rightarrow> (err 500 RegisterError, d1, s)
                   | (Inr u, d1) \<Rightarrow> (success ''/index.html'', d1, Some (uid u))))))"

text \<open>\<open>POST /api/login\<close> (lines 149-173).\<close>

definition api_login :: "env \<Rightarrow> db \<Rightarrow> session \<Rightarrow> body \<Rightarrow> outcome" where
  "api_login ev d s b =
     (case User_findOne d (b ''email'') of
        Inl e \<Rightarrow> (err 500 LoginError, d, s)
      | Inr None \<Rightarrow> (err 400 BadCredentials, d, s)
      | Inr (Some u) \<Rightarrow>
          (case compare_password ev (b ''password'') (password u) of
             Inl e \<Rightarrow> (err 500 LoginError, d, s)
           | Inr validPassword \<Rightarrow>
               if \<not> validPassword then (err 400 BadCredentials, d, s)
               else (success ''/index.html'', d, Some (uid u))))"

text \<open>\<open>GET /api/logout\<close> (lines 175-183).\<close>

definition api_logout :: "env \<Rightarrow> db \<Rightarrow> session \<Rightarrow> outcome" where
  "api_logout ev d s =
     (if destroy_err ev then (err 500 LogoutError, d, s)
      else (success ''/login'', d, None))"

text \<open>\<open>GET /api/me\<close> (lines 186-194), behind \<open>requireAuth\<close>.\<close>

definition api_me :: "db \<Rightarrow> session \<Rightarrow> outcome" where
  "api_me d s =
     (case requireAuth s of
        Answer r \<Rightarrow> (r, d, s)
      | Next \<Rightarrow>
          (case User_findByPk d s of
             None \<Rightarrow> (Json 404 [(''error'', JStr ''User not found'')], d, s)
           | Some u \<Rightarrow>
               (Json 200 [(''username'', JStr (attr_username u)),
                          (''email'', JStr (attr_email u))], d, s)))"

text \<open>\<open>POST /api/chat/save\<close> (lines 197-213), behind \<open>requireAuth\<close>.\<close>

definition api_chat_save :: "env \<Rightarrow> db \<Rightarrow> session \<Rightarrow> body \<Rightarrow> outcome" where
  "api_chat_save ev d s b =
     (case requireAuth s of
        Answer r \<Rightarrow> (r, d, s)
      | Next \<Rightarrow>
          if falsy (b ''message'') \<or> falsy (b ''response'')
          then (err 400 ChatFieldsRequired, d, s)
          else
            (case ChatHistory_create ev d (b ''message'') (b ''response'') s of
               (Inl e, d1) \<Rightarrow> (err 500 ChatSaveError, d1, s)
             | (Inr c, d1) \<Rightarrow>
                 (Json 200 [(''success'', JBool True), (''chat'', JChat c)], d1, s)))"

text \<open>\<open>GET /api/chat/history\<close> (lines 216-228), behind \<open>requireAuth\<close>.\<close>

definition api_chat_history :: "db \<Rightarrow> session \<Rightarrow> outcome" where
  "api_chat_history d s =
     (case requireAuth s of
        Answer r \<Rightarrow> (r, d, s)
      | Next \<Rightarrow>
          (case ChatHistory_findAll d s of
             Inl e \<Rightarrow> (err 500 HistoryError, d, s)
           | Inr history \<Rightarrow> (JsonRows 200 history, d, s)))"

text \<open>
  \<open>GET /index.html\<close> (lines 231-233), behind \<open>requireAuth\<close>. The static
  file middleware of line 73, which stands before every route and consults no
  session, is not modelled.
\<close>

definition get_index :: "db \<Rightarrow> session \<Rightarrow> outcome" where
  "get_index d s =
     (case requireAuth s of
        Answer r \<Rightarrow> (r, d, s)
      | Next \<Rightarrow> (SendFile ''public/index.html'', d, s))"

text \<open>The routing table of the application (lines 93-233), in the order of the source.\<close>

definition route :: "env \<Rightarrow> db \<Rightarrow> session \<Rightarrow> request \<Rightarrow> outcome" where
  "route ev d s r =
     (let m = req_method r; p = req_path r in
      if m = GET \<and> p = ''/'' then get_root d s
      else if m = GET \<and> p = ''/login'' then get_page ''public/login.html'' d s
      else if m = GET \<and> p = ''/signup'' then get_page ''public/signup.html'' d s
      else if m = POST \<and> p = ''/api/register'' then api_register ev d s (req_body r)
      else if m = POST \<and> p = ''/api/login'' then api_login ev d s (req_body r)
      else if m = GET \<and> p = ''/api/logout'' then api_logout ev d s
      else if m = GET \<and> p = ''/api/me'' then api_me d s
      else if m = POST \<and> p = ''/api/chat/save'' then api_chat_save ev d s (req_body r)
      else if m = GET \<and> p = ''/api/chat/history'' then api_chat_history d s
      else if m = GET \<and> p = ''/index.html'' then get_index d s
      else (NoRoute, d, s))"

section \<open>State invariant and result order\<close>

text \<open>
  A session is well formed when it names no user or a stored one. Sessions get their
  user identifier from \<open>api_register\<close> and \<open>api_login\<close> only, and users are
  never deleted.
\<close>

definition session_ok :: "db \<Rightarrow> session \<Rightarrow> bool" where
  "session_ok d s = (case s of None \<Rightarrow> True | Some i \<Rightarrow> (\<exists>u \<in> set (users d). uid u = i))"

text \<open>\<open>ORDER BY timestamp DESC\<close>: no row is newer than a row before it.\<close>

definition newest_first :: "chat list \<Rightarrow> bool" where
  "newest_first rs = sorted_wrt (\<lambda>a b. timestamp b \<le> timestamp a) rs"

section \<open>The session store\<close>

text \<open>
  The source configures the session middleware (lines 76-84) and defines none of it.
  The one constant it fixes is the cookie's \<open>maxAge\<close>, in milliseconds (line 82).
\<close>

definition maxAge :: nat where
  "maxAge = 86400000"

type_synonym token = string

record session_entry =
  entry_user :: nat
  entry_expires :: nat

type_synonym session_table = "token \<rightharpoonup> session_entry"

text \<open>
  Modelled from the spec: the Session Manager's \<open>create\<close> (section 4.2), whose code
  is inside the session middleware and not in server.js. It records the token's
  association with the user and an expiry of now plus the time to live.
\<close>

definition create :: "session_table \<Rightarrow> token \<Rightarrow> nat \<Rightarrow> nat \<Rightarrow> session_table" where
  "create tbl tok userId at =
     tbl(tok \<mapsto> \<lparr>entry_user = userId, entry_expires = at + maxAge\<rparr>)"

text \<open>
  Modelled from the spec: the Session Manager's \<open>resolve\<close> (section 4.2), whose code
  is inside the session middleware and not in server.js. It looks the token up and
  is unauthenticated (\<open>None\<close>) when the token is absent or expired; expiry is
  detected at the lookup.
\<close>

definition resolve :: "session_table \<Rightarrow> token \<Rightarrow> nat \<Rightarrow> nat option" where
  "resolve tbl tok at =
     (case tbl tok of
        None \<Rightarrow> None
      | Some e \<Rightarrow> if entry_expires e \<le> at then None else Some (entry_user e))"

text \<open>
  Modelled from the spec: the Session Manager's \<open>destroy\<close> (section 4.2), whose code
  is inside the session middleware and not in server.js. It removes the association
  and is idempotent.
\<close>

definition destroy :: "session_table \<Rightarrow> token \<Rightarrow> session_table" where
  "destroy tbl tok = tbl(tok := None)"

section \<open>Sample inputs\<close>

text \<open>
  Concrete primitives and states on which the theorems are run: an email check that
  asks for an at-sign, a hash that prefixes the password, and the users of the
  end-to-end scenario of the specification.
\<close>

definition sample_env :: env where
  "sample_env =
     \<lparr>isEmail = (\<lambda>s. CHR ''@'' \<in> set s),
      bcrypt_hash = (\<lambda>p. ''$2b$10$'' @ p),
      bcrypt_compare = (\<lambda>p h. h = ''$2b$10$'' @ p),
      now = 1000,
      destroy_err = False\<rparr>"

definition form :: "(string \<times> string) list \<Rightarrow> body" where
  "form kvs = map_of kvs"

definition empty_db :: db where
  "empty_db = \<lparr>users = [], chats = [], user_seq = 1, chat_seq = 1\<rparr>"

definition alice :: user where
  "alice = \<lparr>uid = 1, username = ''alice'', password = ''$2b$10$pw123'',
             email = ''alice@example.com''\<rparr>"

definition bob :: user where
  "bob = \<lparr>uid = 2, username = ''bob'', password = ''$2b$10$hunter2'',
           email = ''bob@example.com''\<rparr>"

definition alice_db :: db where
  "alice_db = \<lparr>users = [alice], chats = [], user_seq = 2, chat_seq = 1\<rparr>"

definition chat_a :: chat where
  "chat_a = \<lparr>cid = 1, message = ''hi'', response = ''hello'', timestamp = 10,
              UserId = Some 1\<rparr>"

definition chat_b :: chat where
  "chat_b = \<lparr>cid = 2, message = ''secret'', response = ''ok'', timestamp = 20,
              UserId = Some 2\<rparr>"

definition chat_c :: chat where
  "chat_c = \<lparr>cid = 3, message = ''again'', response = ''yes'', timestamp = 30,
              UserId = Some 1\<rparr>"

definition chats_db :: db where
  "chats_db = \<lparr>users = [alice, bob], chats = [chat_a, chat_b, chat_c],
                user_seq = 3, chat_seq = 4\<rparr>"

section \<open>Basic facts\<close>

lemmas handler_defs = route_def api_register_def api_login_def api_logout_def api_me_def
  api_chat_save_def api_chat_history_def get_index_def get_root_def get_page_def
  requireAuth_def User_findOne_def User_findByPk_def User_create_def ChatHistory_create_def
  ChatHistory_findAll_def hash_password_def compare_password_def err_def success_def
  falsy_def Let_def

lemmas sample_defs = sample_env_def empty_db_def form_def alice_def bob_def alice_db_def
  chat_a_def chat_b_def chat_c_def chats_db_def

lemma falsy_simps: "falsy None" "falsy (Some s) = (s = [])"
  by (simp_all add: falsy_def)

lemma find_in_set: "find P xs = Some u \<Longrightarrow> u \<in> set xs"
  by (auto simp: find_Some_iff)

lemma find_Some_ex: "\<exists>x \<in> set xs. P x \<Longrightarrow> \<exists>y. find P xs = Some y"
  by (cases "find P xs") (auto simp: find_None_iff)

lemma User_create_users:
  "User_create ev d un em pw = (res, d1) \<Longrightarrow> set (users d) \<subseteq> set (users d1)"
  by (auto simp: User_create_def Let_def split: option.splits if_splits)

lemma User_create_row:
  "User_create ev d un em pw = (Inr u, d1) \<Longrightarrow> u \<in> set (users d1)"
  by (auto simp: User_create_def Let_def split: option.splits if_splits)

lemma User_create_Inr:
  assumes "User_create ev d un em pw = (Inr u, d1)"
  shows "un = Some (username u) \<and> em = Some (email u) \<and> pw = Some (password u)
       \<and> uid u = user_seq d
       \<and> d1 = d\<lparr>user_seq := Suc (user_seq d), users := users d @ [u]\<rparr>"
  using assms
  by (auto simp: User_create_def Let_def split: option.splits if_splits)

lemma ChatHistory_create_users:
  "ChatHistory_create ev d m r s = (res, d1) \<Longrightarrow> users d1 = users d"
  by (auto simp: ChatHistory_create_def Let_def split: option.splits if_splits)

lemma ChatHistory_create_owner:
  "ChatHistory_create ev d m r s = (Inr c, d1) \<Longrightarrow> UserId c = s"
  by (auto simp: ChatHistory_create_def Let_def split: option.splits if_splits)

section \<open>Sessions stay well formed\<close>

lemma session_ok_mono:
  "session_ok d s \<Longrightarrow> set (users d) \<subseteq> set (users d1) \<Longrightarrow> session_ok d1 s"
  by (auto simp: session_ok_def split: option.splits)

lemma session_ok_row: "u \<in> set (users d) \<Longrightarrow> session_ok d (Some (uid u))"
  by (auto simp: session_ok_def)

lemma api_register_step:
  assumes "api_register ev d s b = (rp, d1, s1)"
  shows "set (users d) \<subseteq> set (users d1)
       \<and> (s1 = s \<or> (\<exists>u \<in> set (users d1). s1 = Some (uid u)))"
  using assms
  by (auto simp: api_register_def hash_password_def
      split: if_splits sum.splits option.splits prod.splits
      dest: User_create_users User_create_row)

lemma api_login_step:
  assumes "api_login ev d s b = (rp, d1, s1)"
  shows "users d1 = users d \<and> (s1 = s \<or> (\<exists>u \<in> set (users d1). s1 = Some (uid u)))"
  using assms
  by (auto simp: api_login_def User_findOne_def compare_password_def
      split: if_splits sum.splits option.splits dest: find_in_set)

lemma api_chat_save_step:
  assumes "api_chat_save ev d s b = (rp, d1, s1)"
  shows "users d1 = users d \<and> s1 = s"
  using assms
  by (auto simp: api_chat_save_def requireAuth_def
      split: if_splits sum.splits prod.splits dest: ChatHistory_create_users)

lemma other_step:
  "get_root d s = (rp, d1, s1) \<Longrightarrow> d1 = d \<and> s1 = s"
  "get_page f d s = (rp, d1, s1) \<Longrightarrow> d1 = d \<and> s1 = s"
  "api_logout ev d s = (rp, d1, s1) \<Longrightarrow> d1 = d \<and> (s1 = s \<or> s1 = None)"
  "api_me d s = (rp, d1, s1) \<Longrightarrow> d1 = d \<and> s1 = s"
  "api_chat_history d s = (rp, d1, s1) \<Longrightarrow> d1 = d \<and> s1 = s"
  "get_index d s = (rp, d1, s1) \<Longrightarrow> d1 = d \<and> s1 = s"
  by (auto simp: get_root_def get_page_def api_logout_def api_me_def api_chat_history_def
      get_index_def requireAuth_def split: option.splits if_splits sum.splits)

lemma route_step:
  assumes "route ev d s r = (rp, d1, s1)"
  shows "set (users d) \<subseteq> set (users d1)
       \<and> (s1 = s \<or> s1 = None \<or> (\<exists>u \<in> set (users d1). s1 = Some (uid u)))"
proof -
  consider
      (reg) "api_register ev d s (req_body r) = (rp, d1, s1)"
    | (login) "api_login ev d s (req_body r) = (rp, d1, s1)"
    | (save) "api_chat_save ev d s (req_body r) = (rp, d1, s1)"
    | (logout) "api_logout ev d s = (rp, d1, s1)"
    | (same) "d1 = d \<and> s1 = s"
    using assms other_step(1,2,4,5,6)
    by (auto simp: route_def Let_def split: if_splits)
  then show ?thesis
  proof cases
    case reg
    then show ?thesis using api_register_step by blast
  next
    case login
    then show ?thesis using api_login_step [OF login] by auto
  next
    case save
    then show ?thesis using api_chat_save_step [OF save] by auto
  next
    case logout
    then show ?thesis using other_step(3) [OF logout] by auto
  next
    case same
    then show ?thesis by simp
  qed
qed

text \<open>
  Whatever the request, the session it leaves behind is well formed, and so is every
  other session that was.
\<close>

lemma route_preserves_session_ok:
  assumes "session_ok d s" and "route ev d s r = (rp, d1, s1)"
  shows "session_ok d1 s1"
proof -
  from route_step [OF assms(2)]
  have sub: "set (users d) \<subseteq> set (users d1)"
    and s1: "s1 = s \<or> s1 = None \<or> (\<exists>u \<in> set (users d1). s1 = Some (uid u))"
    by simp_all
  from s1 show ?thesis
  proof (elim disjE)
    assume "s1 = s"
    then show ?thesis using session_ok_mono [OF assms(1) sub] by simp
  next
    assume "s1 = None"
    then show ?thesis by (simp add: session_ok_def)
  next
    assume "\<exists>u \<in> set (users d1). s1 = Some (uid u)"
    then show ?thesis using session_ok_row by blast
  qed
qed

lemma route_keeps_other_sessions:
  assumes "session_ok d t" and "route ev d s r = (rp, d1, s1)"
  shows "session_ok d1 t"
  using session_ok_mono [OF assms(1)] route_step [OF assms(2)] by blast

section \<open>Session gating of the protected routes\<close>

text \<open>
  C1. The four routes behind \<open>requireAuth\<close> are to answer a request without a session
  as unauthenticated and serve nothing. The theorem runs them with no session: the
  page \<open>index.html\<close> is sent, a chat row is stored and returned, and \<open>/api/me\<close>
  answers 404 because no user has an undefined key. No reply is a refusal of the
  session.
\<close>

theorem protected_routes_open_without_session:
  "route sample_env alice_db None
     \<lparr>req_method = GET, req_path = ''/index.html'', req_body = form []\<rparr>
     = (SendFile ''public/index.html'', alice_db, None)
   \<and> route sample_env alice_db None
     \<lparr>req_method = POST, req_path = ''/api/chat/save'',
        req_body = form [(''message'', ''hi''), (''response'', ''hello'')]\<rparr>
     = (Json 200 [(''success'', JBool True),
          (''chat'', JChat \<lparr>cid = 1, message = ''hi'', response = ''hello'',
                             timestamp = 1000, UserId = None\<rparr>)],
        alice_db\<lparr>chats := [\<lparr>cid = 1, message = ''hi'', response = ''hello'',
                                 timestamp = 1000, UserId = None\<rparr>],
                   chat_seq := 2\<rparr>,
        None)
   \<and> route sample_env alice_db None
     \<lparr>req_method = GET, req_path = ''/api/me'', req_body = form []\<rparr>
     = (Json 404 [(''error'', JStr ''User not found'')], alice_db, None)"
  by (simp add: handler_defs sample_defs)

section \<open>Login failures\<close>

text \<open>
  When the request carries a password, an email that no stored user has and a stored
  email with a password that fails the hash comparison get the same reply: status 400
  with the one error text \<open>BadCredentials\<close>, the database and the session unchanged.
\<close>

lemma login_failures_same_reply_with_password:
  assumes unknown: "b1 ''email'' = Some e1" "e1 \<notin> email ` set (users d)"
      and known: "b2 ''email'' = Some e2" "find (\<lambda>u. email u = e2) (users d) = Some u"
      and wrong: "b2 ''password'' = Some p" "\<not> bcrypt_compare ev2 p (password u)"
    shows "api_login ev1 d s1 b1 = (Json 400 [(''error'', JMsg BadCredentials)], d, s1)
         \<and> api_login ev2 d s2 b2 = (Json 400 [(''error'', JMsg BadCredentials)], d, s2)
         \<and> fst (api_login ev1 d s1 b1) = fst (api_login ev2 d s2 b2)"
proof -
  have none: "find (\<lambda>u. email u = e1) (users d) = None"
    using unknown(2) by (auto simp: find_None_iff)
  have l1: "api_login ev1 d s1 b1 = (err 400 BadCredentials, d, s1)"
    by (simp add: api_login_def User_findOne_def unknown(1) none)
  have l2: "api_login ev2 d s2 b2 = (err 400 BadCredentials, d, s2)"
    by (simp add: api_login_def User_findOne_def compare_password_def known wrong)
  show ?thesis by (simp add: l1 l2 err_def)
qed

text \<open>
  The handler does not check that the password is present, as the registration
  handler does (line 119). With no password, the lookup of line 154 still decides:
  an unknown email is answered at line 156, and a stored email reaches
  \<open>bcrypt.compare\<close> (line 160), which throws into the catch of lines 169-171.
\<close>

lemma login_without_password:
  assumes "b ''email'' = Some e" and "b ''password'' = None"
  shows "e \<in> email ` set (users d) \<Longrightarrow>
           api_login ev d s b = (Json 500 [(''error'', JMsg LoginError)], d, s)"
    and "e \<notin> email ` set (users d) \<Longrightarrow>
           api_login ev d s b = (Json 400 [(''error'', JMsg BadCredentials)], d, s)"
proof -
  assume "e \<in> email ` set (users d)"
  then have "\<exists>x \<in> set (users d). email x = e" by auto
  then obtain u where "find (\<lambda>x. email x = e) (users d) = Some u"
    using find_Some_ex [of "users d" "\<lambda>x. email x = e"] by blast
  then show "api_login ev d s b = (Json 500 [(''error'', JMsg LoginError)], d, s)"
    by (simp add: api_login_def User_findOne_def compare_password_def assms err_def)
next
  assume "e \<notin> email ` set (users d)"
  then have "find (\<lambda>x. email x = e) (users d) = None"
    by (auto simp: find_None_iff)
  then show "api_login ev d s b = (Json 400 [(''error'', JMsg BadCredentials)], d, s)"
    by (simp add: api_login_def User_findOne_def assms err_def)
qed

text \<open>
  C2. A failed login is to look the same whether the email is unknown or the password
  does not match it. The theorem runs two logins that send no password: for the
  stored email of alice the reply is status 500 with \<open>LoginError\<close>, for an email
  that no user has it is status 400 with \<open>BadCredentials\<close>. The two replies differ,
  so the reply tells whether the email is stored.
\<close>

theorem login_without_password_reveals_email:
  "api_login sample_env alice_db None (form [(''email'', ''alice@example.com'')])
     = (Json 500 [(''error'', JMsg LoginError)], alice_db, None)
   \<and> api_login sample_env alice_db None (form [(''email'', ''nobody@example.com'')])
     = (Json 400 [(''error'', JMsg BadCredentials)], alice_db, None)
   \<and> fst (api_login sample_env alice_db None (form [(''email'', ''alice@example.com'')]))
     \<noteq> fst (api_login sample_env alice_db None (form [(''email'', ''nobody@example.com'')]))"
  by (simp add: handler_defs sample_defs)

section \<open>Registration\<close>

lemma api_register_success:
  assumes "api_register ev d s b = (success target, d1, s1)"
  shows "\<exists>u. b ''username'' = Some (username u) \<and> b ''email'' = Some (email u)
           \<and> email u \<noteq> [] \<and> s1 = Some (uid u)
           \<and> d1 = d\<lparr>user_seq := Suc (user_seq d), users := users d @ [u]\<rparr>"
  using assms
  by (auto simp: api_register_def hash_password_def err_def success_def falsy_def
      split: if_splits sum.splits option.splits prod.splits dest!: User_create_Inr)

text \<open>
  C3, as the claim states it: after a registration that succeeded, every registration
  with the same email gets the duplicate-email error. It fails for a second request
  whose username is empty: the check for missing fields runs first (line 119) and
  answers with \<open>FillAllFields\<close>, not \<open>EmailInUse\<close>.
\<close>

theorem register_same_email_counterexample:
  "api_register sample_env empty_db None
     (form [(''username'', ''alice''), (''email'', ''alice@example.com''),
            (''password'', ''pw123'')])
     = (success ''/index.html'', alice_db, Some 1)
   \<and> api_register sample_env alice_db None
     (form [(''username'', ''''), (''email'', ''alice@example.com''),
            (''password'', ''other'')])
     = (Json 400 [(''error'', JMsg FillAllFields)], alice_db, None)
   \<and> FillAllFields \<noteq> EmailInUse"
  by (simp add: handler_defs sample_defs)

text \<open>
  C3, amended. After a registration that succeeded, every registration with the same
  email is answered with status 400 and leaves the database as it was, the first
  user's row included. The error is \<open>EmailInUse\<close> when the second request has a
  non-empty username and password, and \<open>FillAllFields\<close> when one of them is empty
  or missing.
\<close>

theorem register_same_email_rejected:
  assumes first: "api_register ev1 d s b1 = (success ''/index.html'', d1, s1)"
      and same: "b2 ''email'' = b1 ''email''"
  shows "api_register ev2 d1 s2 b2 =
           (Json 400 [(''error'', JMsg (if falsy (b2 ''username'') \<or> falsy (b2 ''password'')
                                       then FillAllFields else EmailInUse))], d1, s2)
       \<and> (\<exists>u \<in> set (users d1). b1 ''email'' = Some (email u)
              \<and> b1 ''username'' = Some (username u) \<and> s1 = Some (uid u))"
proof -
  from api_register_success [OF first] obtain u where
    u: "b1 ''username'' = Some (username u)" "b1 ''email'' = Some (email u)" "email u \<noteq> []"
       "s1 = Some (uid u)" "d1 = d\<lparr>user_seq := Suc (user_seq d), users := users d @ [u]\<rparr>"
    by blast
  have in_d1: "u \<in> set (users d1)" by (simp add: u(5))
  then obtain y where y: "find (\<lambda>x. email x = email u) (users d1) = Some y"
    using find_Some_ex [of "users d1" "\<lambda>x. email x = email u"] by blast
  have e2: "b2 ''email'' = Some (email u)" by (simp add: same u(2))
  have "api_register ev2 d1 s2 b2 =
           (Json 400 [(''error'', JMsg (if falsy (b2 ''username'') \<or> falsy (b2 ''password'')
                                       then FillAllFields else EmailInUse))], d1, s2)"
    by (simp add: api_register_def User_findOne_def e2 y err_def falsy_simps u(3))
  then show ?thesis using in_d1 u by blast
qed

theorem register_same_email_rejected_witness:
  "api_register sample_env alice_db None
     (form [(''username'', ''alice2''), (''email'', ''alice@example.com''),
            (''password'', ''other'')])
     = (Json 400 [(''error'', JMsg EmailInUse)], alice_db, None)
   \<and> api_register sample_env alice_db None
     (form [(''email'', ''alice@example.com''), (''password'', ''other'')])
     = (Json 400 [(''error'', JMsg FillAllFields)], alice_db, None)"
proof -
  have first: "api_register sample_env empty_db None
     (form [(''username'', ''alice''), (''email'', ''alice@example.com''),
            (''password'', ''pw123'')])
     = (success ''/index.html'', alice_db, Some 1)"
    by (simp add: handler_defs sample_defs)
  show ?thesis
    using register_same_email_rejected [OF first, of
        "form [(''username'', ''alice2''), (''email'', ''alice@example.com''),
               (''password'', ''other'')]"
        sample_env None]
      register_same_email_rejected [OF first, of
        "form [(''email'', ''alice@example.com''), (''password'', ''other'')]"
        sample_env None]
    by (simp add: form_def falsy_def)
qed

text \<open>
  C6. A registration with a malformed email is to fail as a validation error, status
  400. The theorem runs one whose three fields are present and whose email has no
  at-sign: the handler's own check passes, the model's \<open>isEmail\<close> validation throws
  inside \<open>User.create\<close>, and the catch-all answers 500. No user is stored.
\<close>

theorem malformed_email_answers_500:
  "api_register sample_env alice_db None
     (form [(''username'', ''bob''), (''email'', ''not-an-email''), (''password'', ''pw'')])
     = (Json 500 [(''error'', JMsg RegisterError)], alice_db, None)
   \<and> User_create sample_env alice_db (Some ''bob'') (Some ''not-an-email'') (Some ''$2b$10$pw'')
     = (Inl ValidationError, alice_db)"
  by (simp add: handler_defs sample_defs)

text \<open>
  C10, as the claim states it: every registration whose email is new and whose
  username is taken gets the generic 500. It fails for such a request with no
  password: the check for missing fields answers 400 before any lookup.
\<close>

theorem duplicate_username_counterexample:
  "''alice'' \<in> username ` set (users alice_db)
   \<and> ''new@example.com'' \<notin> email ` set (users alice_db)
   \<and> api_register sample_env alice_db None
        (form [(''username'', ''alice''), (''email'', ''new@example.com'')])
      = (Json 400 [(''error'', JMsg FillAllFields)], alice_db, None)"
  by (simp add: handler_defs sample_defs)

text \<open>
  C10, amended. For a registration whose username, email and password are all
  non-empty, whose email is well formed and not stored, and whose username is an
  existing user's: the lookup by email finds nothing, the INSERT is rejected by the
  uniqueness constraint, and the client gets status 500 with the generic
  registration error. No user is added; the rejected INSERT has used one identifier.
\<close>

theorem duplicate_username_answers_500:
  assumes fields: "b ''username'' = Some u" "b ''email'' = Some e" "b ''password'' = Some p"
      and present: "u \<noteq> []" "e \<noteq> []" "p \<noteq> []"
      and wellformed: "isEmail ev e"
      and fresh: "e \<notin> email ` set (users d)"
      and taken: "u \<in> username ` set (users d)"
  shows "User_findOne d (b ''email'') = Inr None
       \<and> User_create ev d (b ''username'') (b ''email'') (Some (bcrypt_hash ev p))
           = (Inl UniqueConstraintError, d\<lparr>user_seq := Suc (user_seq d)\<rparr>)
       \<and> api_register ev d s b
           = (Json 500 [(''error'', JMsg RegisterError)], d\<lparr>user_seq := Suc (user_seq d)\<rparr>, s)
       \<and> users (d\<lparr>user_seq := Suc (user_seq d)\<rparr>) = users d"
proof -
  have none: "find (\<lambda>x. email x = e) (users d) = None"
    using fresh by (auto simp: find_None_iff)
  have pre: "User_findOne d (b ''email'') = Inr None"
    by (simp add: User_findOne_def fields none)
  have dup: "\<exists>x \<in> set (users d). username x = u \<or> email x = e"
    using taken by auto
  have ins: "User_create ev d (b ''username'') (b ''email'') (Some (bcrypt_hash ev p))
           = (Inl UniqueConstraintError, d\<lparr>user_seq := Suc (user_seq d)\<rparr>)"
    using dup wellformed by (simp add: User_create_def fields Let_def)
  have "api_register ev d s b
           = (Json 500 [(''error'', JMsg RegisterError)], d\<lparr>user_seq := Suc (user_seq d)\<rparr>, s)"
    using present ins pre
    by (simp add: api_register_def falsy_simps fields hash_password_def err_def)
  then show ?thesis using pre ins by simp
qed

theorem duplicate_username_answers_500_witness:
  "api_register sample_env alice_db None
        (form [(''username'', ''alice''), (''email'', ''new@example.com''), (''password'', ''pw'')])
      = (Json 500 [(''error'', JMsg RegisterError)],
         alice_db\<lparr>user_seq := Suc (user_seq alice_db)\<rparr>, None)"
  using duplicate_username_answers_500 [of
      "form [(''username'', ''alice''), (''email'', ''new@example.com''), (''password'', ''pw'')]"
      "''alice''" "''new@example.com''" "''pw''" sample_env alice_db None]
  by (simp add: form_def sample_env_def alice_db_def alice_def)

section \<open>The current user's profile\<close>

text \<open>
  C9. For a session of user identifier \<open>i\<close>, \<open>GET /api/me\<close> answers, when a user
  with that identifier is stored, with status 200 and exactly the two fields username
  and email of such a user; when none is stored, with status 404. Whatever the reply,
  its fields are those two or the one error field: the password hash is in none.
\<close>

theorem me_profile_or_404:
  "(i \<in> uid ` set (users d) \<longrightarrow>
      (\<exists>u \<in> set (users d). uid u = i \<and>
         api_me d (Some i) =
           (Json 200 [(''username'', JStr (username u)), (''email'', JStr (email u))],
            d, Some i)))
   \<and> (i \<notin> uid ` set (users d) \<longrightarrow>
        api_me d (Some i) = (Json 404 [(''error'', JStr ''User not found'')], d, Some i))
   \<and> (\<forall>n kvs. fst (api_me d (Some i)) = Json n kvs \<longrightarrow>
        (n = 200 \<and> map fst kvs = [''username'', ''email''])
        \<or> (n = 404 \<and> map fst kvs = [''error'']))"
proof -
  have a: "\<exists>u \<in> set (users d). uid u = i \<and>
         api_me d (Some i) =
           (Json 200 [(''username'', JStr (username u)), (''email'', JStr (email u))],
            d, Some i)"
    if "i \<in> uid ` set (users d)"
  proof -
    from that have "\<exists>x \<in> set (users d). uid x = i" by auto
    then obtain u where u: "find (\<lambda>x. uid x = i) (users d) = Some u"
      using find_Some_ex [of "users d" "\<lambda>x. uid x = i"] by blast
    then have "u \<in> set (users d)" and "uid u = i"
      by (auto simp: find_Some_iff)
    moreover have "api_me d (Some i) =
           (Json 200 [(''username'', JStr (username u)), (''email'', JStr (email u))],
            d, Some i)"
      by (simp add: api_me_def requireAuth_def User_findByPk_def u)
    ultimately show ?thesis by blast
  qed
  have b: "api_me d (Some i) = (Json 404 [(''error'', JStr ''User not found'')], d, Some i)"
    if "i \<notin> uid ` set (users d)"
  proof -
    from that have "find (\<lambda>x. uid x = i) (users d) = None"
      by (auto simp: find_None_iff)
    then show ?thesis by (simp add: api_me_def requireAuth_def User_findByPk_def)
  qed
  have c: "(n = 200 \<and> map fst kvs = [''username'', ''email''])
        \<or> (n = 404 \<and> map fst kvs = [''error''])"
    if "fst (api_me d (Some i)) = Json n kvs" for n kvs
    using that
    by (auto simp: api_me_def requireAuth_def User_findByPk_def split: option.splits)
  show ?thesis using a b c by blast
qed

theorem me_profile_or_404_witness:
  "api_me alice_db (Some 1) =
     (Json 200 [(''username'', JStr ''alice''), (''email'', JStr ''alice@example.com'')],
      alice_db, Some 1)
   \<and> api_me alice_db (Some 9) =
     (Json 404 [(''error'', JStr ''User not found'')], alice_db, Some 9)"
  using me_profile_or_404 [of 1 alice_db] me_profile_or_404 [of 9 alice_db]
  by (simp add: alice_db_def alice_def)

section \<open>Chat records\<close>

lemma newest_first_rev_sort: "newest_first (rev (sort_key timestamp xs))"
proof -
  have "sorted (map timestamp (sort_key timestamp xs))"
    by (rule sorted_sort_key)
  then have "sorted_wrt (\<lambda>a b. timestamp a \<le> timestamp b) (sort_key timestamp xs)"
    by (simp add: sorted_map)
  then show ?thesis
    by (simp add: newest_first_def sorted_wrt_rev)
qed

lemma newest_first_cut:
  assumes "newest_first xs" and "c \<in> set xs" and "c \<notin> set (take n xs)"
    and "r \<in> set (take n xs)"
  shows "timestamp c \<le> timestamp r"
proof -
  have "set xs = set (take n xs) \<union> set (drop n xs)"
    by (metis append_take_drop_id set_append)
  with assms(2,3) have c: "c \<in> set (drop n xs)" by blast
  have "sorted_wrt (\<lambda>a b. timestamp b \<le> timestamp a) (take n xs @ drop n xs)"
    using assms(1) by (simp add: newest_first_def)
  then show ?thesis
    using c assms(4) unfolding sorted_wrt_append by blast
qed

text \<open>
  C4. For the session of user \<open>u\<close>, \<open>GET /api/chat/history\<close> answers 200 with rows
  that are all stored rows owned by \<open>u\<close>, newest first, at most 50 of them: as many
  as \<open>u\<close> owns up to 50, and no row of \<open>u\<close> that is left out is newer than a row
  returned. A row that \<open>/api/chat/save\<close> created for the session of another user is
  never among them.
\<close>

theorem history_only_own_newest_first:
  "\<exists>rs. api_chat_history d (Some u) = (JsonRows 200 rs, d, Some u)
      \<and> (\<forall>c \<in> set rs. UserId c = Some u \<and> c \<in> set (chats d))
      \<and> newest_first rs
      \<and> length rs = min 50 (length (filter (\<lambda>c. UserId c = Some u) (chats d)))
      \<and> (\<forall>c \<in> set (chats d). UserId c = Some u \<and> c \<notin> set rs \<longrightarrow>
            (\<forall>r \<in> set rs. timestamp c \<le> timestamp r))
      \<and> (\<forall>ev d0 v b c d1 s1.
            api_chat_save ev d0 (Some v) b
              = (Json 200 [(''success'', JBool True), (''chat'', JChat c)], d1, s1) \<and> v \<noteq> u
            \<longrightarrow> c \<notin> set rs)"
proof -
  define own where "own = filter (\<lambda>c. UserId c = Some u) (chats d)"
  define xs where "xs = rev (sort_key timestamp own)"
  define rs where "rs = take 50 xs"
  have set_xs: "set xs = set own" by (simp add: xs_def)
  have reply: "api_chat_history d (Some u) = (JsonRows 200 rs, d, Some u)"
    by (simp add: api_chat_history_def requireAuth_def ChatHistory_findAll_def
        rs_def xs_def own_def)
  have sub: "set rs \<subseteq> set own"
    using set_take_subset [of 50 xs] by (simp add: rs_def set_xs)
  have mine: "\<forall>c \<in> set rs. UserId c = Some u \<and> c \<in> set (chats d)"
    using sub by (auto simp: own_def)
  have nf_xs: "newest_first xs"
    unfolding xs_def by (rule newest_first_rev_sort)
  have nf: "newest_first rs"
    using nf_xs by (simp add: rs_def newest_first_def sorted_wrt_take)
  have len: "length rs = min 50 (length own)"
    by (simp add: rs_def xs_def min.commute)
  have cut: "\<forall>c \<in> set (chats d). UserId c = Some u \<and> c \<notin> set rs \<longrightarrow>
            (\<forall>r \<in> set rs. timestamp c \<le> timestamp r)"
  proof (intro ballI impI)
    fix c r
    assume c: "c \<in> set (chats d)" and h: "UserId c = Some u \<and> c \<notin> set rs"
      and r: "r \<in> set rs"
    have "c \<in> set xs" using c h by (simp add: set_xs own_def)
    then show "timestamp c \<le> timestamp r"
      using newest_first_cut [OF nf_xs, of c 50 r] h r by (simp add: rs_def)
  qed
  have other: "\<forall>ev d0 v b c d1 s1.
            api_chat_save ev d0 (Some v) b
              = (Json 200 [(''success'', JBool True), (''chat'', JChat c)], d1, s1) \<and> v \<noteq> u
            \<longrightarrow> c \<notin> set rs"
  proof (intro allI impI)
    fix ev d0 v b c d1 s1
    assume h: "api_chat_save ev d0 (Some v) b
              = (Json 200 [(''success'', JBool True), (''chat'', JChat c)], d1, s1) \<and> v \<noteq> u"
    then have "UserId c = Some v"
      by (auto simp: api_chat_save_def requireAuth_def err_def
          split: if_splits sum.splits prod.splits dest: ChatHistory_create_owner)
    with h mine show "c \<notin> set rs" by auto
  qed
  show ?thesis
    using reply mine nf len cut other unfolding own_def by blast
qed

theorem history_only_own_newest_first_witness:
  "api_chat_history chats_db (Some 1) = (JsonRows 200 [chat_c, chat_a], chats_db, Some 1)
   \<and> UserId chat_c = Some 1 \<and> UserId chat_a = Some 1 \<and> UserId chat_b = Some 2
   \<and> newest_first [chat_c, chat_a]"
  using history_only_own_newest_first [of chats_db 1]
  by (simp add: api_chat_history_def requireAuth_def ChatHistory_findAll_def newest_first_def
      sample_defs)

text \<open>
  C5. A chat-save request whose message or response is empty or missing is answered
  with status 400 and leaves the database as it was. Every other request, on a well
  formed session, stores one new row and returns it: the row holds the message and
  the response sent, the timestamp is the server's clock, the identifier is the next
  of the sequence, and the owner is the session's user.
\<close>

theorem chat_save_validates_then_persists:
  "(falsy (b ''message'') \<or> falsy (b ''response'') \<longrightarrow>
      api_chat_save ev d s b = (Json 400 [(''error'', JMsg ChatFieldsRequired)], d, s))
   \<and> (\<not> falsy (b ''message'') \<and> \<not> falsy (b ''response'') \<and> session_ok d s \<longrightarrow>
        (\<exists>c. api_chat_save ev d s b
                = (Json 200 [(''success'', JBool True), (''chat'', JChat c)],
                   d\<lparr>chat_seq := Suc (chat_seq d), chats := chats d @ [c]\<rparr>, s)
            \<and> timestamp c = now ev
            \<and> b ''message'' = Some (message c) \<and> b ''response'' = Some (response c)
            \<and> UserId c = s \<and> cid c = chat_seq d))"
proof (intro conjI impI)
  assume "falsy (b ''message'') \<or> falsy (b ''response'')"
  then show "api_chat_save ev d s b = (Json 400 [(''error'', JMsg ChatFieldsRequired)], d, s)"
    by (auto simp: api_chat_save_def requireAuth_def err_def)
next
  assume h: "\<not> falsy (b ''message'') \<and> \<not> falsy (b ''response'') \<and> session_ok d s"
  then obtain m r where m: "b ''message'' = Some m" and r: "b ''response'' = Some r"
    by (auto simp: falsy_def split: option.splits)
  define c where
    "c = \<lparr>cid = chat_seq d, message = m, response = r, timestamp = now ev, UserId = s\<rparr>"
  have "ChatHistory_create ev d (Some m) (Some r) s
          = (Inr c, d\<lparr>chat_seq := Suc (chat_seq d), chats := chats d @ [c]\<rparr>)"
    using h
    by (auto simp: ChatHistory_create_def Let_def c_def session_ok_def split: option.splits)
  then have "api_chat_save ev d s b
                = (Json 200 [(''success'', JBool True), (''chat'', JChat c)],
                   d\<lparr>chat_seq := Suc (chat_seq d), chats := chats d @ [c]\<rparr>, s)"
    using h by (simp add: api_chat_save_def requireAuth_def m r)
  then show "\<exists>c. api_chat_save ev d s b
                = (Json 200 [(''success'', JBool True), (''chat'', JChat c)],
                   d\<lparr>chat_seq := Suc (chat_seq d), chats := chats d @ [c]\<rparr>, s)
            \<and> timestamp c = now ev
            \<and> b ''message'' = Some (message c) \<and> b ''response'' = Some (response c)
            \<and> UserId c = s \<and> cid c = chat_seq d"
    by (intro exI [of _ c]) (simp add: c_def m r)
qed

theorem chat_save_validates_then_persists_witness:
  "api_chat_save sample_env alice_db (Some 1)
     (form [(''message'', ''''), (''response'', ''hello'')])
     = (Json 400 [(''error'', JMsg ChatFieldsRequired)], alice_db, Some 1)
   \<and> api_chat_save sample_env alice_db (Some 1) (form [(''response'', ''hello'')])
     = (Json 400 [(''error'', JMsg ChatFieldsRequired)], alice_db, Some 1)
   \<and> (\<exists>c. api_chat_save sample_env alice_db (Some 1)
              (form [(''message'', ''hi''), (''response'', ''hello'')])
            = (Json 200 [(''success'', JBool True), (''chat'', JChat c)],
               alice_db\<lparr>chat_seq := Suc (chat_seq alice_db),
                          chats := chats alice_db @ [c]\<rparr>, Some 1)
          \<and> timestamp c = now sample_env \<and> message c = ''hi'' \<and> response c = ''hello''
          \<and> UserId c = Some 1)"
proof -
  have ok: "session_ok alice_db (Some 1)"
    by (simp add: session_ok_def alice_db_def alice_def)
  have empty: "api_chat_save sample_env alice_db (Some 1)
     (form [(''message'', ''''), (''response'', ''hello'')])
     = (Json 400 [(''error'', JMsg ChatFieldsRequired)], alice_db, Some 1)"
    using chat_save_validates_then_persists
      [of "form [(''message'', ''''), (''response'', ''hello'')]" sample_env alice_db "Some 1"]
    by (simp add: falsy_def form_def)
  have missing: "api_chat_save sample_env alice_db (Some 1) (form [(''response'', ''hello'')])
     = (Json 400 [(''error'', JMsg ChatFieldsRequired)], alice_db, Some 1)"
    using chat_save_validates_then_persists
      [of "form [(''response'', ''hello'')]" sample_env alice_db "Some 1"]
    by (simp add: falsy_def form_def)
  have saved: "\<exists>c. api_chat_save sample_env alice_db (Some 1)
              (form [(''message'', ''hi''), (''response'', ''hello'')])
            = (Json 200 [(''success'', JBool True), (''chat'', JChat c)],
               alice_db\<lparr>chat_seq := Suc (chat_seq alice_db),
                          chats := chats alice_db @ [c]\<rparr>, Some 1)
          \<and> timestamp c = now sample_env \<and> message c = ''hi'' \<and> response c = ''hello''
          \<and> UserId c = Some 1"
    using chat_save_validates_then_persists
      [of "form [(''message'', ''hi''), (''response'', ''hello'')]" sample_env alice_db "Some 1"]
      ok
    by (simp add: falsy_def form_def) metis
  show ?thesis using empty missing saved by blast
qed

text \<open>
  C7. Every stored chat row is to have an owner, a stored user. The theorem saves a
  chat with no session: the row is stored with the owner NULL, and the database then
  holds a chat row that no user owns.
\<close>

theorem chat_saved_without_owner:
  "api_chat_save sample_env alice_db None (form [(''message'', ''hi''), (''response'', ''hello'')])
     = (Json 200 [(''success'', JBool True),
          (''chat'', JChat \<lparr>cid = 1, message = ''hi'', response = ''hello'',
                             timestamp = 1000, UserId = None\<rparr>)],
        alice_db\<lparr>chats := [\<lparr>cid = 1, message = ''hi'', response = ''hello'',
                                 timestamp = 1000, UserId = None\<rparr>],
                   chat_seq := 2\<rparr>,
        None)
   \<and> map UserId (chats (fst (snd (api_chat_save sample_env alice_db None
          (form [(''message'', ''hi''), (''response'', ''hello'')]))))) = [None]"
  by (simp add: handler_defs sample_defs)

section \<open>Session lifetime\<close>

text \<open>
  C8. A token created at \<open>t0\<close> for user \<open>u\<close> lives for the fixed time of one day:
  \<open>maxAge\<close> is 24 hours in milliseconds; resolving at any instant before
  \<open>t0 + maxAge\<close> gives \<open>u\<close>; resolving at that instant or later gives
  unauthenticated, and so does resolving a token that is absent or was destroyed.
\<close>

theorem session_valid_exactly_one_day:
  "maxAge = 24 * 60 * 60 * 1000
   \<and> (\<forall>at. at < t0 + maxAge \<longrightarrow> resolve (create tbl tok u t0) tok at = Some u)
   \<and> (\<forall>at. t0 + maxAge \<le> at \<longrightarrow> resolve (create tbl tok u t0) tok at = None)
   \<and> (tbl tok = None \<longrightarrow> resolve tbl tok at1 = None)
   \<and> resolve (destroy tbl tok) tok at1 = None"
  by (simp add: maxAge_def resolve_def create_def destroy_def)

theorem session_valid_exactly_one_day_witness:
  "resolve (create Map.empty ''tok'' 7 1000) ''tok'' 86400999 = Some 7
   \<and> resolve (create Map.empty ''tok'' 7 1000) ''tok'' 86401000 = None
   \<and> resolve Map.empty ''tok'' 5 = None
   \<and> resolve (destroy (create Map.empty ''tok'' 7 1000) ''tok'') ''tok'' 2000 = None"
  using session_valid_exactly_one_day [of 1000 Map.empty "''tok''" 7 5]
  by (simp add: maxAge_def resolve_def create_def destroy_def)

end
